theory Spec2Isabelle
  imports Main "HOL-Library.Word"
begin

section \<open>Data model of the client factory (cffi\_src/factory.go)\<close>

text \<open>
  A Go \<open>error\<close> is modelled by its message: \<open>fmt.Errorf("...")\<close> is the literal text and
  \<open>fmt.Errorf("...: %w", err)\<close> is the literal prefix followed by the message of \<open>err\<close>.
\<close>

type_synonym go_error = string

text \<open>
  Modelled from the spec: the declaration of \<open>TLSClientError\<close> and of its constructor
  \<open>NewTLSClientError\<close> is not part of factory.go. The spec describes it as a single tagged
  error wrapping an underlying cause, with no structured kind.
\<close>

datatype TLSClientError = TLSClientError go_error

definition NewTLSClientError :: "go_error \<Rightarrow> TLSClientError" where
  "NewTLSClientError err = TLSClientError err"

subsection \<open>Fingerprint definitions\<close>

text \<open>
  Modelled from the spec: the input structs \<open>CustomTlsClient\<close>, \<open>PriorityFrames\<close> and
  \<open>PriorityParam\<close> are declared outside factory.go. Their fields are the ones factory.go
  reads; widths follow the HTTP/2 types they are assigned to (stream ids and values are
  32-bit, setting ids 16-bit, weights 8-bit).
\<close>

record PriorityParam =
  StreamDep :: "32 word"
  Exclusive :: bool
  Weight :: "8 word"

record PriorityFrames =
  StreamID :: "32 word"
  PriorityParam :: PriorityParam

record CustomTlsClient =
  Ja3String :: string
  H2Settings :: "16 word \<rightharpoonup> 32 word"
  H2SettingsOrder :: "16 word list"
  PseudoHeaderOrder :: "string list"
  ConnectionFlow :: "32 word"
  PriorityFrames :: "PriorityFrames list"

text \<open>The types of the HTTP/2 and TLS libraries that the factory fills in.\<close>

type_synonym SettingID = "16 word"

definition SettingID :: "16 word \<Rightarrow> SettingID" where
  "SettingID v = ucast v"

record http2_PriorityParam =
  h2_StreamDep :: "32 word"
  h2_Exclusive :: bool
  h2_Weight :: "8 word"

record http2_Priority =
  h2_StreamID :: "32 word"
  h2_PriorityParam :: http2_PriorityParam

text \<open>
  The handshake specification factory that the JA3 parser returns is opaque to the
  factory: it is only stored. It is identified here by a token.
\<close>

datatype SpecFactory = SpecFactory string

record ClientHelloID =
  Client :: string
  Version :: string
  Seed :: "unit option"
  SpecFactory :: "SpecFactory option"

definition ClientHelloID_zero :: ClientHelloID where
  "ClientHelloID_zero = \<lparr>Client = [], Version = [], Seed = None, SpecFactory = None\<rparr>"

record ClientProfile =
  cp_clientHelloId :: ClientHelloID
  cp_settings :: "SettingID \<rightharpoonup> 32 word"
  cp_settingsOrder :: "SettingID list"
  cp_pseudoHeaderOrder :: "string list"
  cp_connectionFlow :: "32 word"
  cp_priorities :: "http2_Priority list"

definition NewClientProfile ::
  "ClientHelloID \<Rightarrow> (SettingID \<rightharpoonup> 32 word) \<Rightarrow> SettingID list \<Rightarrow> string list \<Rightarrow> 32 word
     \<Rightarrow> http2_Priority list \<Rightarrow> ClientProfile" where
  "NewClientProfile hello h2s h2order pseudo flow prios =
     \<lparr>cp_clientHelloId = hello, cp_settings = h2s, cp_settingsOrder = h2order,
      cp_pseudoHeaderOrder = pseudo, cp_connectionFlow = flow, cp_priorities = prios\<rparr>"

text \<open>The zero value of \<open>var clientProfile tls_client.ClientProfile\<close>.\<close>

definition ClientProfile_zero :: ClientProfile where
  "ClientProfile_zero =
     \<lparr>cp_clientHelloId = ClientHelloID_zero, cp_settings = Map.empty, cp_settingsOrder = [],
      cp_pseudoHeaderOrder = [], cp_connectionFlow = 0, cp_priorities = []\<rparr>"

subsection \<open>The client object and the options it is built from\<close>

datatype HttpClientOption =
    WithTimeout int
  | WithClientProfile ClientProfile
  | WithNotFollowRedirects
  | WithInsecureSkipVerify
  | WithProxyUrl string

text \<open>
  The state of one client object of the underlying library, as far as the factory can
  observe or change it: the profile and the settings it was constructed with, its proxy
  URL and its follow-redirects flag.
\<close>

record HttpClientObj =
  obj_profile :: ClientProfile
  obj_timeout :: int
  obj_insecure :: bool
  obj_proxy :: string
  obj_followRedirect :: bool

text \<open>
  The underlying libraries are parameters of the model:
  \<^item> \<open>NewHttpClient\<close> builds a client object from the options or fails;
  \<^item> \<open>applyProxy\<close> says whether the transport rejects a proxy URL given to \<open>SetProxy\<close>;
  \<^item> \<open>proxyAfterRejection\<close> is the proxy URL a client reports after \<open>SetProxy\<close> rejected a
    URL: the one it had, or the rejected URL when the library stores it before it
    validates it;
  \<^item> \<open>GetSpecFactorFromJa3String\<close> parses a JA3 string or fails;
  \<^item> \<open>MappedTLSClients\<close> is the catalog of named profiles, with \<open>DefaultClientProfile\<close>
    and \<open>DefaultTimeoutSeconds\<close> the library's defaults.
\<close>

record library =
  NewHttpClient :: "HttpClientOption list \<Rightarrow> go_error + HttpClientObj"
  applyProxy :: "string \<Rightarrow> go_error option"
  proxyAfterRejection :: "HttpClientObj \<Rightarrow> string \<Rightarrow> string"
  GetSpecFactorFromJa3String :: "string \<Rightarrow> go_error + SpecFactory"
  MappedTLSClients :: "string \<rightharpoonup> ClientProfile"
  DefaultClientProfile :: ClientProfile
  DefaultTimeoutSeconds :: int

text \<open>
  Modelled from the spec: the methods of the \<open>HttpClient\<close> interface that factory.go calls
  belong to the underlying library and are not part of factory.go. The spec gives their
  contract: get and set the proxy, where set fails on a URL the transport rejects, and
  get and set the follow-redirects flag, where set never fails. Each setter changes the
  one setting it names. Whether \<open>SetProxy\<close> rejects a URL and which proxy the client
  reports after a rejection are the library parameters \<open>applyProxy\<close> and
  \<open>proxyAfterRejection\<close>. \<open>SetProxy\<close> returns the object after the call and the error.
\<close>

definition GetProxy :: "HttpClientObj \<Rightarrow> string" where
  "GetProxy c = obj_proxy c"

definition SetProxy :: "library \<Rightarrow> HttpClientObj \<Rightarrow> string \<Rightarrow> HttpClientObj \<times> go_error option" where
  "SetProxy lib c url =
     (case applyProxy lib url of
        Some err \<Rightarrow> (c\<lparr>obj_proxy := proxyAfterRejection lib c url\<rparr>, Some err)
      | None \<Rightarrow> (c\<lparr>obj_proxy := url\<rparr>, None))"

definition GetFollowRedirect :: "HttpClientObj \<Rightarrow> bool" where
  "GetFollowRedirect c = obj_followRedirect c"

definition SetFollowRedirect :: "HttpClientObj \<Rightarrow> bool \<Rightarrow> HttpClientObj" where
  "SetFollowRedirect c b = c\<lparr>obj_followRedirect := b\<rparr>"

subsection \<open>Request input, wire request, wire response, response\<close>

text \<open>
  Modelled from the spec: \<open>RequestInput\<close> and \<open>Response\<close> are declared outside factory.go.
  A Go \<open>*string\<close> is a \<open>string option\<close> (\<open>None\<close> is \<open>nil\<close>), a Go map is a partial function.
\<close>

record RequestInput =
  SessionId :: "string option"
  TLSClientIdentifier :: string
  CustomTlsClient :: "CustomTlsClient option"
  ProxyUrl :: "string option"
  FollowRedirects :: bool
  TimeoutSeconds :: int
  InsecureSkipVerify :: bool
  RequestMethod :: string
  RequestUrl :: string
  RequestBody :: "string option"
  Headers :: "string \<rightharpoonup> string"
  HeaderOrder :: "string list"

record Response =
  resp_SessionId :: string
  resp_Status :: int
  resp_Body :: string
  resp_Headers :: "string \<rightharpoonup> string list"
  resp_Cookies :: "string \<rightharpoonup> string"

text \<open>\<open>Response{}\<close>: every field at its zero value (a nil map has no entries).\<close>

definition Response_zero :: Response where
  "Response_zero =
     \<lparr>resp_SessionId = [], resp_Status = 0, resp_Body = [],
      resp_Headers = Map.empty, resp_Cookies = Map.empty\<rparr>"

text \<open>
  The request object of the network layer: what \<open>http.NewRequest\<close> was given, and the
  header map that \<open>BuildRequest\<close> stores into it afterwards.
\<close>

record http_Request =
  req_Method :: string
  req_URL :: string
  req_Body :: "string option"
  req_Header :: "string \<rightharpoonup> string list"

text \<open>
  The response of the network layer (the pointer \<open>resp\<close> is taken to be non-nil). Its body
  is what \<open>ioutil.ReadAll\<close> produces when it drains it: the bytes read and the read error,
  if any.
\<close>

record http_Response =
  StatusCode :: int
  Header :: "string \<rightharpoonup> string list"
  Body :: "string \<times> go_error option"

text \<open>
  A cookie of the network layer. \<open>String\<close> is the library's serialisation of the whole
  cookie; it is a field here because the factory only calls it. The cookie list holds
  pointers; they are taken to be non-nil, as the cookie jar produces them.
\<close>

record http_Cookie =
  Name :: string
  String :: string

section \<open>Request and response translation\<close>

definition HeaderOrderKey :: string where
  "HeaderOrderKey = ''Header-Order:''"

text \<open>
  \<open>BuildRequest\<close>, with \<open>http.NewRequest\<close> as the parameter \<open>newRequest\<close> (method, URL,
  optional body). The result is the pair the Go function returns.
\<close>

definition BuildRequest ::
  "(string \<Rightarrow> string \<Rightarrow> string option \<Rightarrow> go_error + http_Request) \<Rightarrow> RequestInput
     \<Rightarrow> http_Request option \<times> TLSClientError option" where
  "BuildRequest newRequest input =
     (if RequestMethod input = [] \<or> RequestUrl input = [] then
        (None, Some (NewTLSClientError ''no request url or request method provided''))
      else
        let hasBody = (RequestBody input \<noteq> None \<and> the (RequestBody input) \<noteq> []);
            ok1 = (Headers input ''content-type'' \<noteq> None);
            ok2 = (Headers input ''Content-Type'' \<noteq> None)
        in if hasBody \<and> \<not> ok1 \<and> \<not> ok2 then
             (None, Some (NewTLSClientError
                ''if you are using a request post body please specify a Content-Type Header''))
           else
             (case (if hasBody
                    then newRequest (RequestMethod input) (RequestUrl input)
                           (Some (the (RequestBody input)))
                    else newRequest (RequestMethod input) (RequestUrl input) None) of
                Inl err \<Rightarrow>
                  (None, Some (NewTLSClientError (''failed to create request object: '' @ err)))
              | Inr tlsReq \<Rightarrow>
                  let headers = (\<lambda>key. map_option (\<lambda>v. [v]) (Headers input key));
                      headers' = headers(HeaderOrderKey \<mapsto> HeaderOrder input)
                  in (Some (tlsReq\<lparr>req_Header := headers'\<rparr>), None)))"

text \<open>\<open>cookiesToMap\<close>: the loop stores each cookie under its name, in list order.\<close>

fun cookiesToMap_loop :: "(string \<rightharpoonup> string) \<Rightarrow> http_Cookie list \<Rightarrow> (string \<rightharpoonup> string)" where
  "cookiesToMap_loop ret [] = ret"
| "cookiesToMap_loop ret (c # cs) = cookiesToMap_loop (ret(Name c \<mapsto> String c)) cs"

definition cookiesToMap :: "http_Cookie list \<Rightarrow> (string \<rightharpoonup> string)" where
  "cookiesToMap cookies = cookiesToMap_loop Map.empty cookies"

text \<open>
  \<open>BuildResponse\<close>. The deferred \<open>resp.Body.Close()\<close> has no effect on the returned values
  and is not part of the model.
\<close>

definition BuildResponse ::
  "string \<Rightarrow> http_Response \<Rightarrow> http_Cookie list \<Rightarrow> Response \<times> TLSClientError option" where
  "BuildResponse sessionId resp cookies =
     (case Body resp of
        (respBodyBytes, Some err) \<Rightarrow> (Response_zero, Some (NewTLSClientError err))
      | (respBodyBytes, None) \<Rightarrow>
          (\<lparr>resp_SessionId = sessionId, resp_Status = StatusCode resp,
            resp_Body = respBodyBytes, resp_Headers = Header resp,
            resp_Cookies = cookiesToMap cookies\<rparr>, None))"

section \<open>Profile resolution\<close>

text \<open>The two append loops of \<open>getCustomTlsClientProfile\<close>, in list order.\<close>

fun h2SettingsOrder_loop :: "SettingID list \<Rightarrow> 16 word list \<Rightarrow> SettingID list" where
  "h2SettingsOrder_loop acc [] = acc"
| "h2SettingsOrder_loop acc (order # rest) = h2SettingsOrder_loop (acc @ [SettingID order]) rest"

fun priorityFrames_loop :: "http2_Priority list \<Rightarrow> PriorityFrames list \<Rightarrow> http2_Priority list" where
  "priorityFrames_loop acc [] = acc"
| "priorityFrames_loop acc (priority # rest) =
     priorityFrames_loop
       (acc @ [\<lparr>h2_StreamID = StreamID priority,
                h2_PriorityParam =
                  \<lparr>h2_StreamDep = StreamDep (PriorityParam priority),
                   h2_Exclusive = Exclusive (PriorityParam priority),
                   h2_Weight = Weight (PriorityParam priority)\<rparr>\<rparr>]) rest"

text \<open>
  \<open>getCustomTlsClientProfile\<close> returns seven values, the last one the error. The settings
  map is copied key by key through the conversion \<open>SettingID\<close>, which maps 16-bit values
  to 16-bit values one to one, so the copy is read through the same conversion.
\<close>

definition getCustomTlsClientProfile ::
  "library \<Rightarrow> CustomTlsClient \<Rightarrow>
     ClientHelloID \<times> (SettingID \<rightharpoonup> 32 word) \<times> SettingID list \<times> string list \<times> 32 word
       \<times> http2_Priority list \<times> go_error option" where
  "getCustomTlsClientProfile lib customClientDefinition =
     (case GetSpecFactorFromJa3String lib (Ja3String customClientDefinition) of
        Inl err \<Rightarrow> (ClientHelloID_zero, Map.empty, [], [], 0, [], Some err)
      | Inr specFactory \<Rightarrow>
          let h2Settings = (\<lambda>id. H2Settings customClientDefinition (ucast id));
              h2SettingsOrder = h2SettingsOrder_loop [] (H2SettingsOrder customClientDefinition);
              pseudoHeaderOrder = PseudoHeaderOrder customClientDefinition;
              connectionFlow = ConnectionFlow customClientDefinition;
              priorityFrames = priorityFrames_loop [] (PriorityFrames customClientDefinition);
              clientHelloId = \<lparr>Client = ''Custom'', Version = ''1'', Seed = None,
                               SpecFactory = Some specFactory\<rparr>
          in (clientHelloId, h2Settings, h2SettingsOrder, pseudoHeaderOrder, connectionFlow,
              priorityFrames, None))"

definition getTlsClientProfile :: "library \<Rightarrow> string \<Rightarrow> ClientProfile" where
  "getTlsClientProfile lib tlsClientIdentifier =
     (case MappedTLSClients lib tlsClientIdentifier of
        None \<Rightarrow> DefaultClientProfile lib
      | Some tlsClientProfile \<Rightarrow> tlsClientProfile)"

section \<open>The session registry\<close>

text \<open>
  A value of the interface type \<open>tls_client.HttpClient\<close> is \<open>nil\<close> or a pointer to a client
  object. Client objects live in a store, a list indexed by address; constructing a
  client appends to it, and nothing is ever removed. The registry \<open>clients\<close> maps session
  ids to interface values.
\<close>

type_synonym HttpClient = "nat option"

record world =
  clients :: "string \<rightharpoonup> HttpClient"
  heap :: "HttpClientObj list"

text \<open>A call either returns its values or panics (a method call on a nil interface).\<close>

datatype 'a outcome = Panicked | Returned 'a

definition handleModification ::
  "library \<Rightarrow> HttpClient \<Rightarrow> string option \<Rightarrow> bool \<Rightarrow> HttpClientObj list
     \<Rightarrow> (HttpClient \<times> bool \<times> go_error option) outcome \<times> HttpClientObj list" where
  "handleModification lib client proxyUrl followRedirects h =
     (case client of
        None \<Rightarrow> (Panicked, h)
      | Some a \<Rightarrow>
          if length h \<le> a then (Panicked, h)
          else
            let c = h ! a in
            (case (if proxyUrl \<noteq> None \<and> GetProxy c \<noteq> the proxyUrl then
                     (case SetProxy lib c (the proxyUrl) of
                        (c', Some err) \<Rightarrow> Inl (c', err)
                      | (c', None) \<Rightarrow> Inr (c', True))
                   else Inr (c, False)) of
               Inl (c', err) \<Rightarrow>
                 (Returned (None, False, Some (''failed to change proxy url of client: '' @ err)),
                  h[a := c'])
             | Inr (c1, changed1) \<Rightarrow>
                 if GetFollowRedirect c1 \<noteq> followRedirects then
                   (Returned (Some a, True, None), h[a := SetFollowRedirect c1 followRedirects])
                 else
                   (Returned (Some a, changed1, None), h[a := c1])))"

text \<open>The option list that \<open>getTlsClient\<close> hands to \<open>NewHttpClient\<close>.\<close>

definition options :: "library \<Rightarrow> RequestInput \<Rightarrow> ClientProfile \<Rightarrow> HttpClientOption list" where
  "options lib requestInput clientProfile =
     (let timeoutSeconds = (if TimeoutSeconds requestInput \<noteq> 0 then TimeoutSeconds requestInput
                            else DefaultTimeoutSeconds lib);
          proxy = ProxyUrl requestInput
      in [WithTimeout timeoutSeconds, WithClientProfile clientProfile]
         @ (if \<not> FollowRedirects requestInput then [WithNotFollowRedirects] else [])
         @ (if InsecureSkipVerify requestInput then [WithInsecureSkipVerify] else [])
         @ (if proxy \<noteq> None \<and> the proxy \<noteq> [] then [WithProxyUrl (the proxy)] else []))"

text \<open>
  The profile a new client is built with: the custom definition first (which may fail),
  then the named identifier, which overrides it when it is not empty.
\<close>

definition clientProfile :: "library \<Rightarrow> RequestInput \<Rightarrow> go_error + ClientProfile" where
  "clientProfile lib requestInput =
     (case (case CustomTlsClient requestInput of
              None \<Rightarrow> Inr ClientProfile_zero
            | Some custom \<Rightarrow>
                (case getCustomTlsClientProfile lib custom of
                   (clientHelloId, h2Settings, h2SettingsOrder, pseudoHeaderOrder, connectionFlow,
                    priorityFrames, Some err) \<Rightarrow> Inl err
                 | (clientHelloId, h2Settings, h2SettingsOrder, pseudoHeaderOrder, connectionFlow,
                    priorityFrames, None) \<Rightarrow>
                     Inr (NewClientProfile clientHelloId h2Settings h2SettingsOrder
                            pseudoHeaderOrder connectionFlow priorityFrames))) of
        Inl err \<Rightarrow> Inl err
      | Inr profile \<Rightarrow>
          if TLSClientIdentifier requestInput \<noteq> []
          then Inr (getTlsClientProfile lib (TLSClientIdentifier requestInput))
          else Inr profile)"

text \<open>
  \<open>getTlsClient\<close> runs under the global lock, so it is one atomic step on the world. Lines
  169 to 173 store the value \<open>NewHttpClient\<close> returned under the session id and only then
  return its error: a failed construction stores the nil client.
\<close>

definition getTlsClient ::
  "library \<Rightarrow> RequestInput \<Rightarrow> string \<Rightarrow> world \<Rightarrow> (HttpClient \<times> go_error option) outcome \<times> world" where
  "getTlsClient lib requestInput sessionId w =
     (case clients w sessionId of
        Some client \<Rightarrow>
          (case handleModification lib client (ProxyUrl requestInput)
                  (FollowRedirects requestInput) (heap w) of
             (Panicked, h') \<Rightarrow> (Panicked, w\<lparr>heap := h'\<rparr>)
           | (Returned (modifiedClient, changed, Some err), h') \<Rightarrow>
               (Returned (None, Some (''failed to modify existing client: '' @ err)),
                w\<lparr>heap := h'\<rparr>)
           | (Returned (modifiedClient, changed, None), h') \<Rightarrow>
               (Returned (modifiedClient, None),
                w\<lparr>clients := (if changed then (clients w)(sessionId \<mapsto> modifiedClient)
                               else clients w),
                  heap := h'\<rparr>))
      | None \<Rightarrow>
          (case clientProfile lib requestInput of
             Inl err \<Rightarrow>
               (Returned (None, Some (''can not build http client out of custom tls client information: '' @ err)), w)
           | Inr profile \<Rightarrow>
               (case NewHttpClient lib (options lib requestInput profile) of
                  Inl err \<Rightarrow>
                    (Returned (None, Some err), w\<lparr>clients := (clients w)(sessionId \<mapsto> None)\<rparr>)
                | Inr obj \<Rightarrow>
                    (Returned (Some (length (heap w)), None),
                     w\<lparr>clients := (clients w)(sessionId \<mapsto> Some (length (heap w))),
                       heap := heap w @ [obj]\<rparr>))))"

text \<open>
  \<open>GetTlsClientFromInput\<close>. The parameter \<open>uuid\<close> is the value of \<open>uuid.New().String()\<close> in
  this call.
\<close>

definition newSessionId :: "string \<Rightarrow> RequestInput \<Rightarrow> string" where
  "newSessionId uuid requestInput =
     (if SessionId requestInput \<noteq> None \<and> the (SessionId requestInput) \<noteq> []
      then the (SessionId requestInput) else uuid)"

definition GetTlsClientFromInput ::
  "library \<Rightarrow> string \<Rightarrow> RequestInput \<Rightarrow> world
     \<Rightarrow> (HttpClient \<times> string \<times> TLSClientError option) outcome \<times> world" where
  "GetTlsClientFromInput lib uuid requestInput w =
     (if TLSClientIdentifier requestInput \<noteq> [] \<and> CustomTlsClient requestInput \<noteq> None then
        (Returned (None, newSessionId uuid requestInput, Some (NewTLSClientError
           ''can not built client out of client identifier and custom tls client information. Please provide only one of them'')), w)
      else if TLSClientIdentifier requestInput = [] \<and> CustomTlsClient requestInput = None then
        (Returned (None, newSessionId uuid requestInput, Some (NewTLSClientError
           ''can not built client without client identifier and without custom tls client information. Please provide at least one of them'')), w)
      else
        (case getTlsClient lib requestInput (newSessionId uuid requestInput) w of
           (Panicked, w') \<Rightarrow> (Panicked, w')
         | (Returned (tlsClient, Some err), w') \<Rightarrow>
             (Returned (None, newSessionId uuid requestInput,
                Some (NewTLSClientError (''failed to build client out of request input: '' @ err))), w')
         | (Returned (tlsClient, None), w') \<Rightarrow>
             (Returned (tlsClient, newSessionId uuid requestInput, None), w')))"

text \<open>
  A sequence of calls to the entry point, each with the identifier \<open>uuid.New()\<close> produced
  for it; the world after the last one.
\<close>

fun calls :: "library \<Rightarrow> (string \<times> RequestInput) list \<Rightarrow> world \<Rightarrow> world" where
  "calls lib [] w = w"
| "calls lib ((uuid, requestInput) # rest) w =
     calls lib rest (snd (GetTlsClientFromInput lib uuid requestInput w))"

section \<open>A sample library and sample inputs\<close>

text \<open>
  One instance of the library parameters, used to run the factory on concrete inputs:
  it rejects the proxy URL \<open>::bad\<close>, both at construction and in \<open>SetProxy\<close> (where the
  client keeps the rejected URL as its proxy), rejects the empty JA3 string, and builds a
  client object by applying the options in order.
\<close>

fun applyOption :: "HttpClientObj \<Rightarrow> HttpClientOption \<Rightarrow> HttpClientObj" where
  "applyOption c (WithTimeout t) = c\<lparr>obj_timeout := t\<rparr>"
| "applyOption c (WithClientProfile p) = c\<lparr>obj_profile := p\<rparr>"
| "applyOption c WithNotFollowRedirects = c\<lparr>obj_followRedirect := False\<rparr>"
| "applyOption c WithInsecureSkipVerify = c\<lparr>obj_insecure := True\<rparr>"
| "applyOption c (WithProxyUrl u) = c\<lparr>obj_proxy := u\<rparr>"

definition sample_client :: HttpClientObj where
  "sample_client =
     \<lparr>obj_profile = ClientProfile_zero, obj_timeout = 30, obj_insecure = False,
      obj_proxy = ''http://p1:8080'', obj_followRedirect = True\<rparr>"

definition sample_library :: library where
  "sample_library =
     \<lparr>NewHttpClient = (\<lambda>opts. if WithProxyUrl ''::bad'' \<in> set opts then Inl ''invalid proxy url''
                              else Inr (foldl applyOption (sample_client\<lparr>obj_proxy := []\<rparr>) opts)),
      applyProxy = (\<lambda>url. if url = ''::bad'' then Some ''invalid proxy url'' else None),
      proxyAfterRejection = (\<lambda>c url. url),
      GetSpecFactorFromJa3String =
        (\<lambda>ja3. if ja3 = [] then Inl ''invalid ja3'' else Inr (SpecFactory.SpecFactory ja3)),
      MappedTLSClients = Map.empty,
      DefaultClientProfile = ClientProfile_zero,
      DefaultTimeoutSeconds = 30\<rparr>"

definition sample_custom :: CustomTlsClient where
  "sample_custom =
     \<lparr>Ja3String = ''771,4865-4866,0-23,29-23,0'', H2Settings = [1 \<mapsto> 65536, 4 \<mapsto> 131072],
      H2SettingsOrder = [2, 4, 1], PseudoHeaderOrder = ['':method'', '':path''],
      ConnectionFlow = 15663105,
      PriorityFrames =
        [\<lparr>StreamID = 3, PriorityParam = \<lparr>StreamDep = 0, Exclusive = False, Weight = 200\<rparr>\<rparr>,
         \<lparr>StreamID = 5, PriorityParam = \<lparr>StreamDep = 3, Exclusive = True, Weight = 100\<rparr>\<rparr>]\<rparr>"

definition sample_input :: "string option \<Rightarrow> string option \<Rightarrow> bool \<Rightarrow> RequestInput" where
  "sample_input sid proxy follow =
     \<lparr>SessionId = sid, TLSClientIdentifier = ''chrome_103'', CustomTlsClient = None,
      ProxyUrl = proxy, FollowRedirects = follow, TimeoutSeconds = 0,
      InsecureSkipVerify = False, RequestMethod = ''POST'',
      RequestUrl = ''https://example.com'', RequestBody = Some ''{}'',
      Headers = [''Content-Type'' \<mapsto> ''application/json''], HeaderOrder = [''Content-Type'']\<rparr>"

definition empty_world :: world where
  "empty_world = \<lparr>clients = Map.empty, heap = []\<rparr>"

definition sample_world :: world where
  "sample_world = \<lparr>clients = [''s1'' \<mapsto> Some 0], heap = [sample_client]\<rparr>"

definition sample_newRequest :: "string \<Rightarrow> string \<Rightarrow> string option \<Rightarrow> go_error + http_Request" where
  "sample_newRequest method url body =
     (if method = ''BAD METHOD'' then Inl ''net/http: invalid method''
      else Inr \<lparr>req_Method = method, req_URL = url, req_Body = body, req_Header = Map.empty\<rparr>)"

definition sample_cookie :: "string \<Rightarrow> string \<Rightarrow> http_Cookie" where
  "sample_cookie name serialised = \<lparr>Name = name, String = serialised\<rparr>"

definition sample_response :: http_Response where
  "sample_response =
     \<lparr>StatusCode = 200, Header = [''Server'' \<mapsto> [''nginx'']],
      Body = (''partial'', Some ''unexpected EOF'')\<rparr>"

section \<open>Profile resolution keeps the sequences\<close>

lemma SettingID_id: "SettingID v = v"
  by (simp add: SettingID_def)

lemma h2SettingsOrder_loop_eq: "h2SettingsOrder_loop acc xs = acc @ xs"
  by (induction xs arbitrary: acc) (simp_all add: SettingID_id)

lemma priorityFrames_loop_StreamID:
  "map h2_StreamID (priorityFrames_loop acc ps) = map h2_StreamID acc @ map StreamID ps"
  by (induction ps arbitrary: acc) simp_all

lemma priorityFrames_loop_StreamDep:
  "map (\<lambda>p. h2_StreamDep (h2_PriorityParam p)) (priorityFrames_loop acc ps)
     = map (\<lambda>p. h2_StreamDep (h2_PriorityParam p)) acc @ map (\<lambda>p. StreamDep (PriorityParam p)) ps"
  by (induction ps arbitrary: acc) simp_all

lemma priorityFrames_loop_Exclusive:
  "map (\<lambda>p. h2_Exclusive (h2_PriorityParam p)) (priorityFrames_loop acc ps)
     = map (\<lambda>p. h2_Exclusive (h2_PriorityParam p)) acc @ map (\<lambda>p. Exclusive (PriorityParam p)) ps"
  by (induction ps arbitrary: acc) simp_all

lemma priorityFrames_loop_Weight:
  "map (\<lambda>p. h2_Weight (h2_PriorityParam p)) (priorityFrames_loop acc ps)
     = map (\<lambda>p. h2_Weight (h2_PriorityParam p)) acc @ map (\<lambda>p. Weight (PriorityParam p)) ps"
  by (induction ps arbitrary: acc) simp_all

text \<open>
  Claim C5. When the JA3 string of a custom definition parses, \<open>getCustomTlsClientProfile\<close>
  returns no error, its settings order and pseudo-header order are the input lists
  themselves, and its priority frames carry, position by position, the stream id,
  stream dependency, exclusivity flag and weight of the input frames: same length, same
  order, nothing dropped or sorted.
\<close>

theorem getCustomTlsClientProfile_sequences_verbatim:
  assumes "GetSpecFactorFromJa3String lib (Ja3String c) = Inr sf"
  shows "\<exists>hello h2s flow prios.
           getCustomTlsClientProfile lib c
             = (hello, h2s, H2SettingsOrder c, PseudoHeaderOrder c, flow, prios, None)
           \<and> map h2_StreamID prios = map StreamID (PriorityFrames c)
           \<and> map (\<lambda>p. h2_StreamDep (h2_PriorityParam p)) prios
               = map (\<lambda>p. StreamDep (PriorityParam p)) (PriorityFrames c)
           \<and> map (\<lambda>p. h2_Exclusive (h2_PriorityParam p)) prios
               = map (\<lambda>p. Exclusive (PriorityParam p)) (PriorityFrames c)
           \<and> map (\<lambda>p. h2_Weight (h2_PriorityParam p)) prios
               = map (\<lambda>p. Weight (PriorityParam p)) (PriorityFrames c)"
  using assms
  by (simp add: getCustomTlsClientProfile_def h2SettingsOrder_loop_eq
      priorityFrames_loop_StreamID priorityFrames_loop_StreamDep
      priorityFrames_loop_Exclusive priorityFrames_loop_Weight)

theorem getCustomTlsClientProfile_sequences_verbatim_witness:
  "fst (snd (snd (getCustomTlsClientProfile sample_library sample_custom))) = [2, 4, 1]
   \<and> map h2_StreamID (fst (snd (snd (snd (snd (snd
         (getCustomTlsClientProfile sample_library sample_custom))))))) = [3, 5]"
proof -
  have "GetSpecFactorFromJa3String sample_library (Ja3String sample_custom)
          = Inr (SpecFactory.SpecFactory ''771,4865-4866,0-23,29-23,0'')"
    by (simp add: sample_library_def sample_custom_def)
  from getCustomTlsClientProfile_sequences_verbatim[OF this]
  obtain hello h2s flow prios where
    "getCustomTlsClientProfile sample_library sample_custom
       = (hello, h2s, H2SettingsOrder sample_custom, PseudoHeaderOrder sample_custom, flow,
          prios, None)"
    and "map h2_StreamID prios = map StreamID (PriorityFrames sample_custom)"
    by blast
  then show ?thesis by (simp add: sample_custom_def)
qed

section \<open>Response translation\<close>

lemma cookiesToMap_loop_lookup:
  "cookiesToMap_loop ret cs n =
     (case filter (\<lambda>d. Name d = n) cs of
        [] \<Rightarrow> ret n
      | d # ds \<Rightarrow> Some (String (last (d # ds))))"
  by (induction cs arbitrary: ret) (auto split: list.splits)

lemma cookiesToMap_lookup:
  "cookiesToMap cs n =
     (if n \<in> Name ` set cs then Some (String (last (filter (\<lambda>d. Name d = n) cs))) else None)"
proof (cases "filter (\<lambda>d. Name d = n) cs")
  case Nil
  then have "n \<notin> Name ` set cs" by (auto simp: filter_empty_conv)
  with Nil show ?thesis by (simp add: cookiesToMap_def cookiesToMap_loop_lookup)
next
  case (Cons d ds)
  then have "d \<in> set (filter (\<lambda>d. Name d = n) cs)" by simp
  then have "n \<in> Name ` set cs" by auto
  with Cons show ?thesis by (simp add: cookiesToMap_def cookiesToMap_loop_lookup)
qed

lemma dom_cookiesToMap: "dom (cookiesToMap cs) = Name ` set cs"
  by (auto simp: dom_def cookiesToMap_lookup)

text \<open>
  Claim C6. The keys of the cookie mapping are exactly the names that occur in the cookie
  list, so there is one entry per distinct name; the entry of a name holds the serialised
  string of the last cookie of the list with that name; and a response that
  \<open>BuildResponse\<close> returns without error carries this mapping.
\<close>

theorem cookiesToMap_one_entry_per_name_last_wins:
  "dom (cookiesToMap cookies) = Name ` set cookies
   \<and> card (dom (cookiesToMap cookies)) = length (remdups (map Name cookies))
   \<and> (\<forall>c \<in> set cookies.
         cookiesToMap cookies (Name c)
           = Some (String (last (filter (\<lambda>d. Name d = Name c) cookies))))
   \<and> (snd (BuildResponse sessionId resp cookies) = None \<longrightarrow>
         resp_Cookies (fst (BuildResponse sessionId resp cookies)) = cookiesToMap cookies)"
proof -
  have "card (Name ` set cookies) = length (remdups (map Name cookies))"
    by (metis length_remdups_card_conv list.set_map)
  moreover have "snd (BuildResponse sessionId resp cookies) = None \<longrightarrow>
         resp_Cookies (fst (BuildResponse sessionId resp cookies)) = cookiesToMap cookies"
    by (cases "Body resp") (auto simp: BuildResponse_def split: option.splits)
  ultimately show ?thesis
    by (simp add: dom_cookiesToMap cookiesToMap_lookup)
qed

theorem cookiesToMap_one_entry_per_name_last_wins_witness:
  "dom (cookiesToMap [sample_cookie ''a'' ''a=1'', sample_cookie ''b'' ''b=2'']) = {''a'', ''b''}
   \<and> card (dom (cookiesToMap [sample_cookie ''a'' ''a=1'', sample_cookie ''b'' ''b=2''])) = 2
   \<and> dom (cookiesToMap [sample_cookie ''a'' ''a=1'', sample_cookie ''a'' ''a=2; Path=/''])
       = {''a''}
   \<and> cookiesToMap [sample_cookie ''a'' ''a=1'', sample_cookie ''a'' ''a=2; Path=/''] ''a''
       = Some ''a=2; Path=/''"
  using cookiesToMap_one_entry_per_name_last_wins
          [of "[sample_cookie ''a'' ''a=1'', sample_cookie ''b'' ''b=2'']"]
        cookiesToMap_one_entry_per_name_last_wins
          [of "[sample_cookie ''a'' ''a=1'', sample_cookie ''a'' ''a=2; Path=/'']"]
  by (simp add: sample_cookie_def)

text \<open>
  Claim C10. When draining the body fails, \<open>BuildResponse\<close> returns the error together with
  the zero response: empty session id, status 0, empty body, no headers, no cookies,
  whatever was read before the failure. Conversely an error is returned only when the
  drain failed, and the response next to an error is always the zero response.
\<close>

theorem BuildResponse_drain_failure_zero_response:
  "(snd (Body resp) = Some err \<longrightarrow>
      BuildResponse sessionId resp cookies
        = (\<lparr>resp_SessionId = [], resp_Status = 0, resp_Body = [],
            resp_Headers = Map.empty, resp_Cookies = Map.empty\<rparr>,
           Some (NewTLSClientError err)))
   \<and> (snd (BuildResponse sessionId resp cookies) \<noteq> None \<longrightarrow>
        snd (Body resp) \<noteq> None \<and> fst (BuildResponse sessionId resp cookies) = Response_zero)"
  by (cases "Body resp") (auto simp: BuildResponse_def Response_zero_def split: option.splits)

theorem BuildResponse_drain_failure_zero_response_witness:
  "BuildResponse ''s1'' sample_response [sample_cookie ''a'' ''a=1'']
     = (\<lparr>resp_SessionId = [], resp_Status = 0, resp_Body = [],
         resp_Headers = Map.empty, resp_Cookies = Map.empty\<rparr>,
        Some (NewTLSClientError ''unexpected EOF''))"
  using BuildResponse_drain_failure_zero_response
          [of sample_response "''unexpected EOF''" "''s1''" "[sample_cookie ''a'' ''a=1'']"]
  by (simp add: sample_response_def)

section \<open>Request translation\<close>

text \<open>
  Claim C7. \<open>BuildRequest\<close> returns one of its two validation errors exactly when the method
  or the URL is empty, or a non-empty body comes with neither of the header keys
  \<open>content-type\<close> and \<open>Content-Type\<close>. In both cases the result is the same for every
  behaviour of \<open>http.NewRequest\<close>: no request object is involved. In every other case
  the outcome is that of \<open>http.NewRequest\<close>, whose failure is reported under a third
  message.
\<close>

theorem BuildRequest_validation_errors:
  "(RequestMethod input = [] \<or> RequestUrl input = [] \<longrightarrow>
      BuildRequest newRequest input
        = (None, Some (NewTLSClientError ''no request url or request method provided'')))
   \<and> (RequestMethod input \<noteq> [] \<and> RequestUrl input \<noteq> []
        \<and> RequestBody input \<noteq> None \<and> RequestBody input \<noteq> Some []
        \<and> Headers input ''content-type'' = None \<and> Headers input ''Content-Type'' = None \<longrightarrow>
      BuildRequest newRequest input
        = (None, Some (NewTLSClientError
             ''if you are using a request post body please specify a Content-Type Header'')))
   \<and> ((snd (BuildRequest newRequest input)
          \<in> {Some (NewTLSClientError ''no request url or request method provided''),
             Some (NewTLSClientError
               ''if you are using a request post body please specify a Content-Type Header'')})
        = (RequestMethod input = [] \<or> RequestUrl input = []
           \<or> (RequestBody input \<noteq> None \<and> RequestBody input \<noteq> Some []
               \<and> Headers input ''content-type'' = None
               \<and> Headers input ''Content-Type'' = None)))
   \<and> (RequestMethod input \<noteq> [] \<and> RequestUrl input \<noteq> []
        \<and> (RequestBody input = None \<or> RequestBody input = Some []
            \<or> Headers input ''content-type'' \<noteq> None \<or> Headers input ''Content-Type'' \<noteq> None) \<longrightarrow>
      (snd (BuildRequest newRequest input) = None)
        = (\<exists>r. newRequest (RequestMethod input) (RequestUrl input)
                 (if RequestBody input = Some [] then None else RequestBody input) = Inr r))"
proof -
  have the_body: "RequestBody input \<noteq> None \<Longrightarrow> Some (the (RequestBody input)) = RequestBody input"
    by simp
  have c1: "RequestMethod input = [] \<or> RequestUrl input = [] \<longrightarrow>
      BuildRequest newRequest input
        = (None, Some (NewTLSClientError ''no request url or request method provided''))"
    by (simp add: BuildRequest_def)
  have c2: "RequestMethod input \<noteq> [] \<and> RequestUrl input \<noteq> []
        \<and> RequestBody input \<noteq> None \<and> RequestBody input \<noteq> Some []
        \<and> Headers input ''content-type'' = None \<and> Headers input ''Content-Type'' = None \<longrightarrow>
      BuildRequest newRequest input
        = (None, Some (NewTLSClientError
             ''if you are using a request post body please specify a Content-Type Header''))"
    by (auto simp add: BuildRequest_def Let_def)
  have c4: "RequestMethod input \<noteq> [] \<and> RequestUrl input \<noteq> []
        \<and> (RequestBody input = None \<or> RequestBody input = Some []
            \<or> Headers input ''content-type'' \<noteq> None \<or> Headers input ''Content-Type'' \<noteq> None) \<longrightarrow>
      BuildRequest newRequest input =
        (case newRequest (RequestMethod input) (RequestUrl input)
                 (if RequestBody input = Some [] then None else RequestBody input) of
           Inl err \<Rightarrow> (None, Some (NewTLSClientError (''failed to create request object: '' @ err)))
         | Inr tlsReq \<Rightarrow>
             (Some (tlsReq\<lparr>req_Header :=
                (\<lambda>key. map_option (\<lambda>v. [v]) (Headers input key))
                  (HeaderOrderKey \<mapsto> HeaderOrder input)\<rparr>), None))"
    by (cases "RequestBody input") (auto simp add: BuildRequest_def Let_def split: sum.splits)
  have c3: "(snd (BuildRequest newRequest input)
          \<in> {Some (NewTLSClientError ''no request url or request method provided''),
             Some (NewTLSClientError
               ''if you are using a request post body please specify a Content-Type Header'')})
        = (RequestMethod input = [] \<or> RequestUrl input = []
           \<or> (RequestBody input \<noteq> None \<and> RequestBody input \<noteq> Some []
               \<and> Headers input ''content-type'' = None
               \<and> Headers input ''Content-Type'' = None))"
  proof (cases "RequestMethod input = [] \<or> RequestUrl input = []
           \<or> (RequestBody input \<noteq> None \<and> RequestBody input \<noteq> Some []
               \<and> Headers input ''content-type'' = None
               \<and> Headers input ''Content-Type'' = None)")
    case True
    then show ?thesis using c1 c2 by (cases "RequestMethod input = [] \<or> RequestUrl input = []") auto
  next
    case False
    then have pre: "RequestMethod input \<noteq> [] \<and> RequestUrl input \<noteq> []
        \<and> (RequestBody input = None \<or> RequestBody input = Some []
            \<or> Headers input ''content-type'' \<noteq> None \<or> Headers input ''Content-Type'' \<noteq> None)"
      by auto
    have "snd (BuildRequest newRequest input)
          \<notin> {Some (NewTLSClientError ''no request url or request method provided''),
             Some (NewTLSClientError
               ''if you are using a request post body please specify a Content-Type Header'')}"
      unfolding c4[rule_format, OF pre]
      by (simp add: NewTLSClientError_def split: sum.splits)
    with False show ?thesis by simp
  qed
  have c5: "RequestMethod input \<noteq> [] \<and> RequestUrl input \<noteq> []
        \<and> (RequestBody input = None \<or> RequestBody input = Some []
            \<or> Headers input ''content-type'' \<noteq> None \<or> Headers input ''Content-Type'' \<noteq> None) \<longrightarrow>
      (snd (BuildRequest newRequest input) = None)
        = (\<exists>r. newRequest (RequestMethod input) (RequestUrl input)
                 (if RequestBody input = Some [] then None else RequestBody input) = Inr r)"
  proof
    assume pre: "RequestMethod input \<noteq> [] \<and> RequestUrl input \<noteq> []
        \<and> (RequestBody input = None \<or> RequestBody input = Some []
            \<or> Headers input ''content-type'' \<noteq> None \<or> Headers input ''Content-Type'' \<noteq> None)"
    show "(snd (BuildRequest newRequest input) = None)
        = (\<exists>r. newRequest (RequestMethod input) (RequestUrl input)
                 (if RequestBody input = Some [] then None else RequestBody input) = Inr r)"
      unfolding c4[rule_format, OF pre] by (simp split: sum.splits)
  qed
  show ?thesis by (rule conjI[OF c1 conjI[OF c2 conjI[OF c3 c5]]])
qed

theorem BuildRequest_validation_errors_witness:
  "BuildRequest sample_newRequest ((sample_input None None True)\<lparr>RequestMethod := []\<rparr>)
     = (None, Some (NewTLSClientError ''no request url or request method provided''))
   \<and> BuildRequest sample_newRequest ((sample_input None None True)\<lparr>Headers := Map.empty\<rparr>)
     = (None, Some (NewTLSClientError
          ''if you are using a request post body please specify a Content-Type Header''))
   \<and> snd (BuildRequest sample_newRequest (sample_input None None True)) = None"
  using BuildRequest_validation_errors
          [of "(sample_input None None True)\<lparr>RequestMethod := []\<rparr>" sample_newRequest]
        BuildRequest_validation_errors
          [of "(sample_input None None True)\<lparr>Headers := Map.empty\<rparr>" sample_newRequest]
        BuildRequest_validation_errors
          [of "sample_input None None True" sample_newRequest]
  by (simp add: sample_input_def sample_newRequest_def)

section \<open>Modification of an existing client\<close>

lemma handleModification_rejected:
  assumes "a < length h" "proxyUrl = Some p" "GetProxy (h ! a) \<noteq> p" "applyProxy lib p = Some err"
  shows "handleModification lib (Some a) proxyUrl fr h
           = (Returned (None, False, Some (''failed to change proxy url of client: '' @ err)),
              h[a := (h ! a)\<lparr>obj_proxy := proxyAfterRejection lib (h ! a) p\<rparr>])"
  using assms by (simp add: handleModification_def SetProxy_def Let_def)

lemma handleModification_noproxy:
  assumes "a < length h" "proxyUrl = None \<or> proxyUrl = Some (GetProxy (h ! a))"
  shows "handleModification lib (Some a) proxyUrl fr h
           = (Returned (Some a, GetFollowRedirect (h ! a) \<noteq> fr, None),
              h[a := (h ! a)\<lparr>obj_followRedirect := fr\<rparr>])"
proof (cases "GetFollowRedirect (h ! a) = fr")
  case True
  then have "(h ! a)\<lparr>obj_followRedirect := fr\<rparr> = h ! a"
    by (simp add: GetFollowRedirect_def)
  with True assms show ?thesis
    by (auto simp add: handleModification_def Let_def)
next
  case False
  with assms show ?thesis
    by (auto simp add: handleModification_def Let_def SetFollowRedirect_def)
qed

lemma handleModification_setproxy:
  assumes "a < length h" "proxyUrl = Some p" "GetProxy (h ! a) \<noteq> p" "applyProxy lib p = None"
  shows "handleModification lib (Some a) proxyUrl fr h
           = (Returned (Some a, True, None),
              h[a := (h ! a)\<lparr>obj_proxy := p, obj_followRedirect := fr\<rparr>])"
proof (cases "GetFollowRedirect ((h ! a)\<lparr>obj_proxy := p\<rparr>) = fr")
  case True
  then have "(h ! a)\<lparr>obj_proxy := p, obj_followRedirect := fr\<rparr> = (h ! a)\<lparr>obj_proxy := p\<rparr>"
    by (simp add: GetFollowRedirect_def)
  with True assms show ?thesis
    by (simp add: handleModification_def Let_def SetProxy_def)
next
  case False
  with assms show ?thesis
    by (simp add: handleModification_def Let_def SetProxy_def SetFollowRedirect_def)
qed

text \<open>The ways a call can find an existing entry and a requested proxy.\<close>

lemma entry_cases:
  "(c = None \<or> (\<exists>a. c = Some a \<and> length h \<le> a))
   \<or> (\<exists>a. c = Some a \<and> a < length h
          \<and> (proxyUrl = None \<or> proxyUrl = Some (GetProxy (h ! a))))
   \<or> (\<exists>a p. c = Some a \<and> a < length h \<and> proxyUrl = Some p \<and> GetProxy (h ! a) \<noteq> p
          \<and> applyProxy lib p = None)
   \<or> (\<exists>a p err. c = Some a \<and> a < length h \<and> proxyUrl = Some p \<and> GetProxy (h ! a) \<noteq> p
          \<and> applyProxy lib p = Some err)"
  by (cases c; cases proxyUrl; cases "applyProxy lib (the proxyUrl)") force+

text \<open>
  Claim C2, as the code has it. For a client whose follow-redirects flag differs from the
  requested one, \<open>handleModification\<close> flips the flag, reports a change and returns no
  error whenever the proxy step does not fail: no proxy is supplied, the supplied proxy
  is the current one, or \<open>SetProxy\<close> accepts it. When \<open>SetProxy\<close> rejects the supplied proxy,
  \<open>handleModification\<close> returns that error, with the nil client and no change reported,
  before it looks at the flag: the flag is left as it was.
\<close>

theorem handleModification_flips_flag_unless_proxy_rejected:
  assumes "a < length h" and "GetFollowRedirect (h ! a) \<noteq> followRedirects"
  shows "(proxyUrl = None \<or> GetProxy (h ! a) = the proxyUrl
            \<or> applyProxy lib (the proxyUrl) = None \<longrightarrow>
          fst (handleModification lib (Some a) proxyUrl followRedirects h)
            = Returned (Some a, True, None)
          \<and> GetFollowRedirect (snd (handleModification lib (Some a) proxyUrl followRedirects h) ! a)
              = followRedirects)
       \<and> (\<forall>p err. proxyUrl = Some p \<and> GetProxy (h ! a) \<noteq> p \<and> applyProxy lib p = Some err \<longrightarrow>
            fst (handleModification lib (Some a) proxyUrl followRedirects h)
              = Returned (None, False, Some (''failed to change proxy url of client: '' @ err))
            \<and> GetFollowRedirect
                 (snd (handleModification lib (Some a) proxyUrl followRedirects h) ! a)
                = GetFollowRedirect (h ! a))"
proof (intro conjI impI allI)
  assume ok: "proxyUrl = None \<or> GetProxy (h ! a) = the proxyUrl
                \<or> applyProxy lib (the proxyUrl) = None"
  have "fst (handleModification lib (Some a) proxyUrl followRedirects h)
            = Returned (Some a, True, None)
          \<and> GetFollowRedirect (snd (handleModification lib (Some a) proxyUrl followRedirects h) ! a)
              = followRedirects"
  proof (cases "proxyUrl = None \<or> proxyUrl = Some (GetProxy (h ! a))")
    case True
    show ?thesis
      unfolding handleModification_noproxy[OF assms(1) True]
      using assms by (simp add: GetFollowRedirect_def)
  next
    case False
    then obtain p where p: "proxyUrl = Some p" "GetProxy (h ! a) \<noteq> p"
      by (cases proxyUrl) auto
    with ok have "applyProxy lib p = None" by auto
    from handleModification_setproxy[OF assms(1) p this]
    show ?thesis using assms(1) by (simp add: GetFollowRedirect_def)
  qed
  then show "fst (handleModification lib (Some a) proxyUrl followRedirects h)
            = Returned (Some a, True, None)"
    and "GetFollowRedirect (snd (handleModification lib (Some a) proxyUrl followRedirects h) ! a)
              = followRedirects"
    by simp_all
next
  fix p err
  assume "proxyUrl = Some p \<and> GetProxy (h ! a) \<noteq> p \<and> applyProxy lib p = Some err"
  then have rej: "proxyUrl = Some p" "GetProxy (h ! a) \<noteq> p" "applyProxy lib p = Some err"
    by simp_all
  note r = handleModification_rejected[OF assms(1) rej, of followRedirects]
  show "fst (handleModification lib (Some a) proxyUrl followRedirects h)
          = Returned (None, False, Some (''failed to change proxy url of client: '' @ err))"
    by (simp add: r)
  show "GetFollowRedirect (snd (handleModification lib (Some a) proxyUrl followRedirects h) ! a)
          = GetFollowRedirect (h ! a)"
    using assms(1) by (simp add: r GetFollowRedirect_def)
qed

theorem handleModification_flips_flag_unless_proxy_rejected_witness:
  "GetFollowRedirect ([sample_client] ! 0) = True
   \<and> fst (handleModification sample_library (Some 0) (Some ''http://p2:8080'') False
            [sample_client])
       = Returned (Some 0, True, None)
   \<and> GetFollowRedirect
        (snd (handleModification sample_library (Some 0) (Some ''http://p2:8080'') False
                [sample_client]) ! 0)
       = False"
  using handleModification_flips_flag_unless_proxy_rejected
          [of 0 "[sample_client]" False "Some ''http://p2:8080''" sample_library]
  by (simp add: sample_client_def sample_library_def GetFollowRedirect_def)

text \<open>
  Claim C2 as stated fails: the client's flag is \<open>True\<close>, the call asks for \<open>False\<close> and
  supplies a proxy that \<open>SetProxy\<close> rejects. \<open>handleModification\<close> returns the error and the
  flag is still \<open>True\<close>.
\<close>

theorem handleModification_rejected_proxy_keeps_flag:
  "GetFollowRedirect ([sample_client] ! 0) = True
   \<and> fst (handleModification sample_library (Some 0) (Some ''::bad'') False [sample_client])
       = Returned (None, False, Some ''failed to change proxy url of client: invalid proxy url'')
   \<and> GetFollowRedirect
        (snd (handleModification sample_library (Some 0) (Some ''::bad'') False
                [sample_client]) ! 0)
       \<noteq> False"
  by (simp add: handleModification_def SetProxy_def GetProxy_def GetFollowRedirect_def
      sample_library_def sample_client_def)

section \<open>The registry step\<close>

lemma getTlsClient_existing_same_proxy:
  assumes "clients w sid = Some (Some a)" "a < length (heap w)"
    and "ProxyUrl inp = None \<or> ProxyUrl inp = Some (GetProxy (heap w ! a))"
  shows "getTlsClient lib inp sid w
           = (Returned (Some a, None),
              w\<lparr>heap := (heap w)[a := (heap w ! a)\<lparr>obj_followRedirect := FollowRedirects inp\<rparr>]\<rparr>)"
proof -
  have "(clients w)(sid \<mapsto> Some a) = clients w"
    using assms(1) by (rule map_upd_triv)
  then show ?thesis
    using assms by (simp add: getTlsClient_def handleModification_noproxy)
qed

lemma getTlsClient_existing_set_proxy:
  assumes "clients w sid = Some (Some a)" "a < length (heap w)"
    and "ProxyUrl inp = Some p" "GetProxy (heap w ! a) \<noteq> p" "applyProxy lib p = None"
  shows "getTlsClient lib inp sid w
           = (Returned (Some a, None),
              w\<lparr>heap := (heap w)[a := (heap w ! a)\<lparr>obj_proxy := p,
                                       obj_followRedirect := FollowRedirects inp\<rparr>]\<rparr>)"
proof -
  have "(clients w)(sid \<mapsto> Some a) = clients w"
    using assms(1) by (rule map_upd_triv)
  then show ?thesis
    using assms by (simp add: getTlsClient_def handleModification_setproxy)
qed

lemma getTlsClient_existing_rejected:
  assumes "clients w sid = Some (Some a)" "a < length (heap w)"
    and "ProxyUrl inp = Some p" "GetProxy (heap w ! a) \<noteq> p" "applyProxy lib p = Some err"
  shows "getTlsClient lib inp sid w
           = (Returned (None, Some (''failed to modify existing client: ''
                                     @ ''failed to change proxy url of client: '' @ err)),
              w\<lparr>heap := (heap w)[a := (heap w ! a)\<lparr>obj_proxy :=
                                        proxyAfterRejection lib (heap w ! a) p\<rparr>]\<rparr>)"
  using assms by (simp add: getTlsClient_def handleModification_rejected)

lemma getTlsClient_existing_invalid:
  assumes "clients w sid = Some c" "c = None \<or> (\<exists>a. c = Some a \<and> length (heap w) \<le> a)"
  shows "getTlsClient lib inp sid w = (Panicked, w)"
  using assms by (auto simp add: getTlsClient_def handleModification_def)

lemma getTlsClient_absent:
  assumes "clients w sid = None"
  shows "getTlsClient lib inp sid w =
     (case clientProfile lib inp of
        Inl err \<Rightarrow>
          (Returned (None, Some (''can not build http client out of custom tls client information: '' @ err)), w)
      | Inr profile \<Rightarrow>
          (case NewHttpClient lib (options lib inp profile) of
             Inl err \<Rightarrow> (Returned (None, Some err), w\<lparr>clients := (clients w)(sid \<mapsto> None)\<rparr>)
           | Inr obj \<Rightarrow>
               (Returned (Some (length (heap w)), None),
                w\<lparr>clients := (clients w)(sid \<mapsto> Some (length (heap w))),
                  heap := heap w @ [obj]\<rparr>)))"
  using assms by (simp add: getTlsClient_def)

lemma GetTlsClientFromInput_valid:
  assumes "(TLSClientIdentifier inp \<noteq> []) \<noteq> (CustomTlsClient inp \<noteq> None)"
  shows "GetTlsClientFromInput lib uuid inp w =
     (case getTlsClient lib inp (newSessionId uuid inp) w of
           (Panicked, w') \<Rightarrow> (Panicked, w')
         | (Returned (tlsClient, Some err), w') \<Rightarrow>
             (Returned (None, newSessionId uuid inp,
                Some (NewTLSClientError (''failed to build client out of request input: '' @ err))), w')
         | (Returned (tlsClient, None), w') \<Rightarrow>
             (Returned (tlsClient, newSessionId uuid inp, None), w'))"
  using assms by (auto simp add: GetTlsClientFromInput_def)

lemma GetTlsClientFromInput_invalid:
  assumes "(TLSClientIdentifier inp \<noteq> []) = (CustomTlsClient inp \<noteq> None)"
  shows "GetTlsClientFromInput lib uuid inp w =
           (Returned (None, newSessionId uuid inp, Some (NewTLSClientError
              (if TLSClientIdentifier inp \<noteq> []
               then ''can not built client out of client identifier and custom tls client information. Please provide only one of them''
               else ''can not built client without client identifier and without custom tls client information. Please provide at least one of them''))), w)"
  using assms by (auto simp add: GetTlsClientFromInput_def)

lemma GetTlsClientFromInput_world:
  "snd (GetTlsClientFromInput lib uuid inp w) =
     (if (TLSClientIdentifier inp \<noteq> []) = (CustomTlsClient inp \<noteq> None) then w
      else snd (getTlsClient lib inp (newSessionId uuid inp) w))"
proof (cases "(TLSClientIdentifier inp \<noteq> []) = (CustomTlsClient inp \<noteq> None)")
  case True
  then show ?thesis by (simp add: GetTlsClientFromInput_invalid)
next
  case False
  then have v: "(TLSClientIdentifier inp \<noteq> []) \<noteq> (CustomTlsClient inp \<noteq> None)" by simp
  obtain r w' where g: "getTlsClient lib inp (newSessionId uuid inp) w = (r, w')"
    by (cases "getTlsClient lib inp (newSessionId uuid inp) w")
  have "snd (GetTlsClientFromInput lib uuid inp w) = w'"
    unfolding GetTlsClientFromInput_valid[OF v] g
    by (simp split: outcome.splits option.splits prod.splits)
  moreover have "snd (getTlsClient lib inp (newSessionId uuid inp) w) = w'"
    by (simp add: g)
  ultimately show ?thesis
    by (simp only: False if_False)
qed

lemma GetTlsClientFromInput_returned:
  assumes "GetTlsClientFromInput lib uuid inp w = (Returned (c, sid, e), w')"
  shows "sid = newSessionId uuid inp
         \<and> (e = None \<longrightarrow>
              (TLSClientIdentifier inp \<noteq> []) \<noteq> (CustomTlsClient inp \<noteq> None)
              \<and> getTlsClient lib inp (newSessionId uuid inp) w = (Returned (c, None), w'))"
proof (cases "(TLSClientIdentifier inp \<noteq> []) = (CustomTlsClient inp \<noteq> None)")
  case True
  from assms show ?thesis
    unfolding GetTlsClientFromInput_invalid[OF True] by auto
next
  case False
  then have v: "(TLSClientIdentifier inp \<noteq> []) \<noteq> (CustomTlsClient inp \<noteq> None)" by simp
  obtain r w1 where g: "getTlsClient lib inp (newSessionId uuid inp) w = (r, w1)"
    by (cases "getTlsClient lib inp (newSessionId uuid inp) w")
  from assms have "sid = newSessionId uuid inp
       \<and> (e = None \<longrightarrow> r = Returned (c, None) \<and> w1 = w')"
    unfolding GetTlsClientFromInput_valid[OF v] g
    by (auto split: outcome.splits option.splits prod.splits)
  with g v show ?thesis by simp
qed

text \<open>
  What every step keeps: the store only grows, the profile of an object already in the
  store does not change, and a session id bound to a client object stays bound to it.
\<close>

lemma getTlsClient_frame:
  "length (heap w) \<le> length (heap (snd (getTlsClient lib inp sid w)))
   \<and> (\<forall>b < length (heap w).
         obj_profile (heap (snd (getTlsClient lib inp sid w)) ! b) = obj_profile (heap w ! b))
   \<and> (\<forall>s a. clients w s = Some (Some a) \<longrightarrow>
         clients (snd (getTlsClient lib inp sid w)) s = Some (Some a))"
proof (cases "clients w sid")
  case None
  show ?thesis
    unfolding getTlsClient_absent[OF None] using None
    by (auto split: sum.splits simp: nth_append)
next
  case (Some c)
  consider (invalid) "c = None \<or> (\<exists>a. c = Some a \<and> length (heap w) \<le> a)"
    | (same) a where "c = Some a" "a < length (heap w)"
        "ProxyUrl inp = None \<or> ProxyUrl inp = Some (GetProxy (heap w ! a))"
    | (set) a p where "c = Some a" "a < length (heap w)"
        "ProxyUrl inp = Some p" "GetProxy (heap w ! a) \<noteq> p" "applyProxy lib p = None"
    | (rejected) a p err where "c = Some a" "a < length (heap w)"
        "ProxyUrl inp = Some p" "GetProxy (heap w ! a) \<noteq> p" "applyProxy lib p = Some err"
    using entry_cases[of c "heap w" "ProxyUrl inp" lib] by blast
  then show ?thesis
  proof cases
    case invalid
    then show ?thesis by (simp add: getTlsClient_existing_invalid[OF Some])
  next
    case same
    with Some show ?thesis
      by (simp add: getTlsClient_existing_same_proxy nth_list_update)
  next
    case set
    with Some show ?thesis
      by (simp add: getTlsClient_existing_set_proxy nth_list_update)
  next
    case rejected
    with Some show ?thesis
      by (simp add: getTlsClient_existing_rejected nth_list_update)
  qed
qed

lemma GetTlsClientFromInput_frame:
  "length (heap w) \<le> length (heap (snd (GetTlsClientFromInput lib uuid inp w)))
   \<and> (\<forall>b < length (heap w).
         obj_profile (heap (snd (GetTlsClientFromInput lib uuid inp w)) ! b)
           = obj_profile (heap w ! b))
   \<and> (\<forall>s a. clients w s = Some (Some a) \<longrightarrow>
         clients (snd (GetTlsClientFromInput lib uuid inp w)) s = Some (Some a))"
  unfolding GetTlsClientFromInput_world
  using getTlsClient_frame[of w lib inp "newSessionId uuid inp"]
  by (cases "(TLSClientIdentifier inp \<noteq> []) = (CustomTlsClient inp \<noteq> None)") simp_all

lemma calls_frame:
  "length (heap w) \<le> length (heap (calls lib cs w))
   \<and> (\<forall>b < length (heap w). obj_profile (heap (calls lib cs w) ! b) = obj_profile (heap w ! b))
   \<and> (\<forall>s a. clients w s = Some (Some a) \<longrightarrow> clients (calls lib cs w) s = Some (Some a))"
proof (induction cs arbitrary: w)
  case Nil
  show ?case by simp
next
  case (Cons call cs)
  obtain uuid inp where call: "call = (uuid, inp)" by (cases call)
  let ?w1 = "snd (GetTlsClientFromInput lib uuid inp w)"
  note step = GetTlsClientFromInput_frame[of w lib uuid inp]
  note rest = Cons.IH[of ?w1]
  have len: "length (heap w) \<le> length (heap (calls lib cs ?w1))"
    using step rest by linarith
  have prof: "\<forall>b < length (heap w).
      obj_profile (heap (calls lib cs ?w1) ! b) = obj_profile (heap w ! b)"
  proof (intro allI impI)
    fix b assume b: "b < length (heap w)"
    then have "b < length (heap ?w1)" using step by linarith
    then have "obj_profile (heap (calls lib cs ?w1) ! b) = obj_profile (heap ?w1 ! b)"
      using rest by blast
    also have "\<dots> = obj_profile (heap w ! b)" using step b by blast
    finally show "obj_profile (heap (calls lib cs ?w1) ! b) = obj_profile (heap w ! b)" .
  qed
  have ent: "\<forall>s a. clients w s = Some (Some a) \<longrightarrow>
      clients (calls lib cs ?w1) s = Some (Some a)"
    using step rest by blast
  from len prof ent show ?case by (simp add: call)
qed

lemma getTlsClient_success_entry:
  assumes "getTlsClient lib inp sid w = (Returned (c, None), w1)"
  shows "\<exists>a. c = Some a \<and> a < length (heap w1) \<and> clients w1 sid = Some (Some a)"
proof (cases "clients w sid")
  case None
  from assms show ?thesis
    unfolding getTlsClient_absent[OF None]
    by (auto split: sum.splits)
next
  case (Some c0)
  consider (invalid) "c0 = None \<or> (\<exists>a. c0 = Some a \<and> length (heap w) \<le> a)"
    | (same) a where "c0 = Some a" "a < length (heap w)"
        "ProxyUrl inp = None \<or> ProxyUrl inp = Some (GetProxy (heap w ! a))"
    | (set) a p where "c0 = Some a" "a < length (heap w)"
        "ProxyUrl inp = Some p" "GetProxy (heap w ! a) \<noteq> p" "applyProxy lib p = None"
    | (rejected) a p err where "c0 = Some a" "a < length (heap w)"
        "ProxyUrl inp = Some p" "GetProxy (heap w ! a) \<noteq> p" "applyProxy lib p = Some err"
    using entry_cases[of c0 "heap w" "ProxyUrl inp" lib] by blast
  then show ?thesis
  proof cases
    case invalid
    with assms show ?thesis by (simp add: getTlsClient_existing_invalid[OF Some])
  next
    case same
    with Some assms show ?thesis
      by (auto simp add: getTlsClient_existing_same_proxy)
  next
    case set
    with Some assms show ?thesis
      by (auto simp add: getTlsClient_existing_set_proxy)
  next
    case rejected
    with Some assms show ?thesis
      by (simp add: getTlsClient_existing_rejected)
  qed
qed

text \<open>A call that finds the session id bound to a client object.\<close>

lemma getTlsClient_existing_summary:
  assumes "clients w sid = Some (Some a)" "a < length (heap w)"
  shows "\<exists>c e w2. getTlsClient lib inp sid w = (Returned (c, e), w2)
           \<and> length (heap w2) = length (heap w) \<and> clients w2 = clients w
           \<and> (e = None \<longrightarrow> c = Some a) \<and> (e \<noteq> None \<longrightarrow> c = None)
           \<and> (e = None) = (\<forall>p. ProxyUrl inp = Some p \<and> GetProxy (heap w ! a) \<noteq> p
                                \<longrightarrow> applyProxy lib p = None)"
proof -
  consider (same) "ProxyUrl inp = None \<or> ProxyUrl inp = Some (GetProxy (heap w ! a))"
    | (set) p where "ProxyUrl inp = Some p" "GetProxy (heap w ! a) \<noteq> p" "applyProxy lib p = None"
    | (rejected) p err where
        "ProxyUrl inp = Some p" "GetProxy (heap w ! a) \<noteq> p" "applyProxy lib p = Some err"
    using entry_cases[of "Some a" "heap w" "ProxyUrl inp" lib] assms(2) by auto
  then show ?thesis
  proof cases
    case same
    from getTlsClient_existing_same_proxy[OF assms same] same
    show ?thesis by auto
  next
    case set
    from getTlsClient_existing_set_proxy[OF assms set] set
    show ?thesis by auto
  next
    case rejected
    from getTlsClient_existing_rejected[OF assms rejected] rejected
    show ?thesis by auto
  qed
qed

section \<open>The entry point\<close>

text \<open>
  Claim C4. When the input has both a TLS client identifier and a custom definition, or
  neither, \<open>GetTlsClientFromInput\<close> returns the nil client, the session id and the
  validation error of that case. The returned values are the same in every world, and
  the world (registry and client objects) is returned as it was.
\<close>

theorem GetTlsClientFromInput_both_or_neither_is_validation_error:
  assumes "(TLSClientIdentifier inp \<noteq> [] \<and> CustomTlsClient inp \<noteq> None)
           \<or> (TLSClientIdentifier inp = [] \<and> CustomTlsClient inp = None)"
  shows "GetTlsClientFromInput lib uuid inp w =
           (Returned (None, newSessionId uuid inp, Some (NewTLSClientError
              (if TLSClientIdentifier inp \<noteq> []
               then ''can not built client out of client identifier and custom tls client information. Please provide only one of them''
               else ''can not built client without client identifier and without custom tls client information. Please provide at least one of them''))), w)"
proof -
  from assms have "(TLSClientIdentifier inp \<noteq> []) = (CustomTlsClient inp \<noteq> None)"
    by auto
  then show ?thesis by (rule GetTlsClientFromInput_invalid)
qed

theorem GetTlsClientFromInput_both_or_neither_is_validation_error_witness:
  "GetTlsClientFromInput sample_library ''uuid-1''
     ((sample_input (Some ''s1'') None False)\<lparr>CustomTlsClient := Some sample_custom\<rparr>) sample_world
     = (Returned (None, ''s1'', Some (NewTLSClientError
          ''can not built client out of client identifier and custom tls client information. Please provide only one of them'')),
        sample_world)
   \<and> GetTlsClientFromInput sample_library ''uuid-1''
     ((sample_input None None False)\<lparr>TLSClientIdentifier := []\<rparr>) sample_world
     = (Returned (None, ''uuid-1'', Some (NewTLSClientError
          ''can not built client without client identifier and without custom tls client information. Please provide at least one of them'')),
        sample_world)"
  using GetTlsClientFromInput_both_or_neither_is_validation_error
          [of "(sample_input (Some ''s1'') None False)\<lparr>CustomTlsClient := Some sample_custom\<rparr>"
              sample_library "''uuid-1''" sample_world]
        GetTlsClientFromInput_both_or_neither_is_validation_error
          [of "(sample_input None None False)\<lparr>TLSClientIdentifier := []\<rparr>"
              sample_library "''uuid-1''" sample_world]
  by (simp add: sample_input_def newSessionId_def)

text \<open>
  Claim C9. Whenever \<open>GetTlsClientFromInput\<close> returns, with or without an error, the session
  id it returns is the supplied one when that is present and not empty, and otherwise the
  identifier generated by \<open>uuid.New()\<close> for this call; it is not empty as long as the
  generated identifier is not.
\<close>

theorem GetTlsClientFromInput_returned_session_id:
  assumes "fst (GetTlsClientFromInput lib uuid inp w) = Returned (c, sid, e)"
  shows "(\<forall>s. SessionId inp = Some s \<and> s \<noteq> [] \<longrightarrow> sid = s)
       \<and> (SessionId inp = None \<or> SessionId inp = Some [] \<longrightarrow> sid = uuid)
       \<and> (uuid \<noteq> [] \<longrightarrow> sid \<noteq> [])"
proof -
  from assms have "GetTlsClientFromInput lib uuid inp w
      = (Returned (c, sid, e), snd (GetTlsClientFromInput lib uuid inp w))"
    by (metis prod.collapse)
  then have "sid = newSessionId uuid inp"
    using GetTlsClientFromInput_returned by blast
  then show ?thesis
    by (auto simp add: newSessionId_def)
qed

lemma sample_first_call:
  "fst (GetTlsClientFromInput sample_library uuid (sample_input sid None True) empty_world)
     = Returned (Some 0, newSessionId uuid (sample_input sid None True), None)"
  by (simp add: GetTlsClientFromInput_def getTlsClient_def clientProfile_def
      getTlsClientProfile_def options_def sample_library_def sample_input_def empty_world_def)

theorem GetTlsClientFromInput_returned_session_id_witness:
  "fst (GetTlsClientFromInput sample_library ''6ba7b810-9dad-11d1-80b4-00c04fd430c8''
          (sample_input (Some ''s1'') None True) empty_world)
     = Returned (Some 0, ''s1'', None)
   \<and> fst (GetTlsClientFromInput sample_library ''6ba7b810-9dad-11d1-80b4-00c04fd430c8''
          (sample_input (Some []) None True) empty_world)
     = Returned (Some 0, ''6ba7b810-9dad-11d1-80b4-00c04fd430c8'', None)"
  using GetTlsClientFromInput_returned_session_id
          [OF sample_first_call[of "''6ba7b810-9dad-11d1-80b4-00c04fd430c8''" "Some ''s1''"]]
        GetTlsClientFromInput_returned_session_id
          [OF sample_first_call[of "''6ba7b810-9dad-11d1-80b4-00c04fd430c8''" "Some []"]]
        sample_first_call[of "''6ba7b810-9dad-11d1-80b4-00c04fd430c8''" "Some ''s1''"]
        sample_first_call[of "''6ba7b810-9dad-11d1-80b4-00c04fd430c8''" "Some []"]
  by (simp add: sample_input_def)

text \<open>
  Claim C1, on the code. No entry exists for \<open>s1\<close>; the call asks for a client whose
  construction fails. \<open>GetTlsClientFromInput\<close> returns the error, but \<open>getTlsClient\<close> has
  already stored the nil client under \<open>s1\<close>: the registry has an entry for the session id
  after the failed call, and the next call for \<open>s1\<close> finds it and panics on the nil client.
\<close>

theorem GetTlsClientFromInput_failed_construction_registers_nil_client:
  "clients empty_world ''s1'' = None
   \<and> fst (GetTlsClientFromInput sample_library ''uuid-1''
            (sample_input (Some ''s1'') (Some ''::bad'') True) empty_world)
       = Returned (None, ''s1'', Some (NewTLSClientError
           ''failed to build client out of request input: invalid proxy url''))
   \<and> clients (snd (GetTlsClientFromInput sample_library ''uuid-1''
                     (sample_input (Some ''s1'') (Some ''::bad'') True) empty_world)) ''s1''
       = Some None
   \<and> fst (GetTlsClientFromInput sample_library ''uuid-2'' (sample_input (Some ''s1'') None True)
            (snd (GetTlsClientFromInput sample_library ''uuid-1''
                    (sample_input (Some ''s1'') (Some ''::bad'') True) empty_world)))
       = Panicked"
proof -
  let ?inp = "sample_input (Some ''s1'') (Some ''::bad'') True"
  have v: "(TLSClientIdentifier ?inp \<noteq> []) \<noteq> (CustomTlsClient ?inp \<noteq> None)"
    by (simp add: sample_input_def)
  have sid: "newSessionId ''uuid-1'' ?inp = ''s1''"
    by (simp add: sample_input_def newSessionId_def)
  have "clientProfile sample_library ?inp = Inr ClientProfile_zero"
    by (simp add: clientProfile_def getTlsClientProfile_def sample_library_def sample_input_def)
  moreover have "NewHttpClient sample_library (options sample_library ?inp ClientProfile_zero)
      = Inl ''invalid proxy url''"
    by (simp add: options_def sample_library_def sample_input_def)
  moreover have e: "clients empty_world ''s1'' = None"
    by (simp add: empty_world_def)
  ultimately have g: "getTlsClient sample_library ?inp ''s1'' empty_world
      = (Returned (None, Some ''invalid proxy url''),
         empty_world\<lparr>clients := (clients empty_world)(''s1'' \<mapsto> None)\<rparr>)"
    by (simp add: getTlsClient_absent)
  have first: "GetTlsClientFromInput sample_library ''uuid-1'' ?inp empty_world
      = (Returned (None, ''s1'', Some (NewTLSClientError
           ''failed to build client out of request input: invalid proxy url'')),
         empty_world\<lparr>clients := (clients empty_world)(''s1'' \<mapsto> None)\<rparr>)"
    unfolding GetTlsClientFromInput_valid[OF v] sid g by simp
  let ?w1 = "empty_world\<lparr>clients := (clients empty_world)(''s1'' \<mapsto> None)\<rparr>"
  let ?inp2 = "sample_input (Some ''s1'') None True"
  have v2: "(TLSClientIdentifier ?inp2 \<noteq> []) \<noteq> (CustomTlsClient ?inp2 \<noteq> None)"
    by (simp add: sample_input_def)
  have sid2: "newSessionId ''uuid-2'' ?inp2 = ''s1''"
    by (simp add: sample_input_def newSessionId_def)
  have "clients ?w1 ''s1'' = Some None" by simp
  then have "getTlsClient sample_library ?inp2 ''s1'' ?w1 = (Panicked, ?w1)"
    by (rule getTlsClient_existing_invalid) simp
  then have second: "GetTlsClientFromInput sample_library ''uuid-2'' ?inp2 ?w1 = (Panicked, ?w1)"
    unfolding GetTlsClientFromInput_valid[OF v2] sid2 by simp
  show ?thesis
    unfolding first using e second by simp
qed

section \<open>Reuse of an existing session\<close>

text \<open>
  Claim C8. A call for a session id bound to a client object, with no proxy supplied or
  with the client's current proxy, returns that same client without error; the registry
  is unchanged and the only change in the store is that the client's follow-redirects
  flag now has the requested value, so its proxy and its profile (and every other client
  object) are untouched. Further, no sequence of calls to the entry point changes the
  profile of a client object that exists: the profile is fixed when the client is built.
\<close>

theorem getTlsClient_redirect_only_keeps_proxy_and_profile:
  assumes "clients w sid = Some (Some a)" and "a < length (heap w)"
    and "ProxyUrl inp = None \<or> ProxyUrl inp = Some (GetProxy (heap w ! a))"
  shows "fst (getTlsClient lib inp sid w) = Returned (Some a, None)
       \<and> clients (snd (getTlsClient lib inp sid w)) = clients w
       \<and> heap (snd (getTlsClient lib inp sid w))
           = (heap w)[a := (heap w ! a)\<lparr>obj_followRedirect := FollowRedirects inp\<rparr>]
       \<and> GetProxy (heap (snd (getTlsClient lib inp sid w)) ! a) = GetProxy (heap w ! a)
       \<and> obj_profile (heap (snd (getTlsClient lib inp sid w)) ! a) = obj_profile (heap w ! a)
       \<and> GetFollowRedirect (heap (snd (getTlsClient lib inp sid w)) ! a) = FollowRedirects inp
       \<and> ((TLSClientIdentifier inp \<noteq> []) \<noteq> (CustomTlsClient inp \<noteq> None)
            \<and> newSessionId uuid inp = sid \<longrightarrow>
          GetTlsClientFromInput lib uuid inp w
            = (Returned (Some a, sid, None), snd (getTlsClient lib inp sid w)))
       \<and> (\<forall>b < length (heap w).
            b < length (heap (calls lib cs w))
            \<and> obj_profile (heap (calls lib cs w) ! b) = obj_profile (heap w ! b))"
proof -
  note g = getTlsClient_existing_same_proxy[OF assms, of lib]
  have 1: "fst (getTlsClient lib inp sid w) = Returned (Some a, None)"
    and 2: "clients (snd (getTlsClient lib inp sid w)) = clients w"
    and 3: "heap (snd (getTlsClient lib inp sid w))
           = (heap w)[a := (heap w ! a)\<lparr>obj_followRedirect := FollowRedirects inp\<rparr>]"
    by (simp_all add: g)
  have 4: "GetProxy (heap (snd (getTlsClient lib inp sid w)) ! a) = GetProxy (heap w ! a)"
    and 5: "obj_profile (heap (snd (getTlsClient lib inp sid w)) ! a) = obj_profile (heap w ! a)"
    and 6: "GetFollowRedirect (heap (snd (getTlsClient lib inp sid w)) ! a) = FollowRedirects inp"
    using assms(2) by (simp_all add: 3 GetProxy_def GetFollowRedirect_def)
  have 7: "(TLSClientIdentifier inp \<noteq> []) \<noteq> (CustomTlsClient inp \<noteq> None)
            \<and> newSessionId uuid inp = sid \<longrightarrow>
          GetTlsClientFromInput lib uuid inp w
            = (Returned (Some a, sid, None), snd (getTlsClient lib inp sid w))"
  proof
    assume h: "(TLSClientIdentifier inp \<noteq> []) \<noteq> (CustomTlsClient inp \<noteq> None)
            \<and> newSessionId uuid inp = sid"
    then have v: "(TLSClientIdentifier inp \<noteq> []) \<noteq> (CustomTlsClient inp \<noteq> None)"
      and s: "newSessionId uuid inp = sid"
      by simp_all
    show "GetTlsClientFromInput lib uuid inp w
            = (Returned (Some a, sid, None), snd (getTlsClient lib inp sid w))"
      unfolding GetTlsClientFromInput_valid[OF v] s g by simp
  qed
  have 8: "\<forall>b < length (heap w).
            b < length (heap (calls lib cs w))
            \<and> obj_profile (heap (calls lib cs w) ! b) = obj_profile (heap w ! b)"
    using calls_frame[of w lib cs] by auto
  show ?thesis
    by (rule conjI[OF 1 conjI[OF 2 conjI[OF 3 conjI[OF 4 conjI[OF 5 conjI[OF 6 conjI[OF 7 8]]]]]]])
qed

theorem getTlsClient_redirect_only_keeps_proxy_and_profile_witness:
  "fst (getTlsClient sample_library (sample_input (Some ''s1'') None False) ''s1'' sample_world)
     = Returned (Some 0, None)
   \<and> heap (snd (getTlsClient sample_library (sample_input (Some ''s1'') None False) ''s1''
                  sample_world))
       = [sample_client\<lparr>obj_followRedirect := False\<rparr>]
   \<and> GetProxy (heap (snd (getTlsClient sample_library (sample_input (Some ''s1'') None False)
                            ''s1'' sample_world)) ! 0)
       = ''http://p1:8080''"
  using getTlsClient_redirect_only_keeps_proxy_and_profile
          [of sample_world "''s1''" 0 "sample_input (Some ''s1'') None False" sample_library
              "''uuid-1''" "[]"]
  by (simp add: sample_world_def sample_input_def sample_client_def GetProxy_def)

text \<open>
  Claim C3, as the code has it. After a call that returned a client for a session id
  without error, and after any further calls, a call with that session id and an input
  that passes the identifier/custom validation finds the entry: it returns, builds no
  client (the store keeps its size) and leaves the registry as it is, with the session
  id still bound to the first call's client. It returns that very client when it returns
  no error, and it returns an error with the nil client exactly when it supplies a proxy
  that differs from the client's and that \<open>SetProxy\<close> rejects.
\<close>

theorem GetTlsClientFromInput_reuses_client:
  assumes "GetTlsClientFromInput lib uuid1 inp1 w = (Returned (c, sid, None), w1)"
    and "SessionId inp2 = Some sid" and "sid \<noteq> []"
    and "(TLSClientIdentifier inp2 \<noteq> []) \<noteq> (CustomTlsClient inp2 \<noteq> None)"
  shows "\<exists>a c2 e2 w2.
           c = Some a \<and> a < length (heap (calls lib between w1))
           \<and> GetTlsClientFromInput lib uuid2 inp2 (calls lib between w1)
               = (Returned (c2, sid, e2), w2)
           \<and> length (heap w2) = length (heap (calls lib between w1))
           \<and> clients w2 = clients (calls lib between w1)
           \<and> clients w2 sid = Some c
           \<and> (e2 = None \<longrightarrow> c2 = c) \<and> (e2 \<noteq> None \<longrightarrow> c2 = None)
           \<and> (e2 = None)
               = (\<forall>p. ProxyUrl inp2 = Some p \<and> GetProxy (heap (calls lib between w1) ! a) \<noteq> p
                      \<longrightarrow> applyProxy lib p = None)"
proof -
  let ?w = "calls lib between w1"
  from GetTlsClientFromInput_returned[OF assms(1)]
  have "getTlsClient lib inp1 sid w = (Returned (c, None), w1)"
    by simp
  from getTlsClient_success_entry[OF this]
  obtain a where a: "c = Some a" "a < length (heap w1)" "clients w1 sid = Some (Some a)"
    by blast
  from calls_frame[of w1 lib between] a
  have len: "a < length (heap ?w)" and ent: "clients ?w sid = Some (Some a)"
    by auto
  from getTlsClient_existing_summary[OF ent len, of lib inp2]
  obtain c2 e w2 where g: "getTlsClient lib inp2 sid ?w = (Returned (c2, e), w2)"
    and keep: "length (heap w2) = length (heap ?w)" "clients w2 = clients ?w"
    and res: "e = None \<longrightarrow> c2 = Some a" "e \<noteq> None \<longrightarrow> c2 = None"
    and iff: "(e = None) = (\<forall>p. ProxyUrl inp2 = Some p \<and> GetProxy (heap ?w ! a) \<noteq> p
                                \<longrightarrow> applyProxy lib p = None)"
    by blast
  have s: "newSessionId uuid2 inp2 = sid"
    using assms(2,3) by (simp add: newSessionId_def)
  have "\<exists>c3 e2. GetTlsClientFromInput lib uuid2 inp2 ?w = (Returned (c3, sid, e2), w2)
          \<and> (e2 = None) = (e = None) \<and> (e2 = None \<longrightarrow> c3 = c2) \<and> (e2 \<noteq> None \<longrightarrow> c3 = None)"
    unfolding GetTlsClientFromInput_valid[OF assms(4)] s g
    by (cases e) simp_all
  then obtain c3 e2 where
    r: "GetTlsClientFromInput lib uuid2 inp2 ?w = (Returned (c3, sid, e2), w2)"
    and e2: "(e2 = None) = (e = None)" "e2 = None \<longrightarrow> c3 = c2" "e2 \<noteq> None \<longrightarrow> c3 = None"
    by blast
  have "c = Some a \<and> a < length (heap ?w)
           \<and> GetTlsClientFromInput lib uuid2 inp2 ?w = (Returned (c3, sid, e2), w2)
           \<and> length (heap w2) = length (heap ?w)
           \<and> clients w2 = clients ?w
           \<and> clients w2 sid = Some c
           \<and> (e2 = None \<longrightarrow> c3 = c) \<and> (e2 \<noteq> None \<longrightarrow> c3 = None)
           \<and> (e2 = None)
               = (\<forall>p. ProxyUrl inp2 = Some p \<and> GetProxy (heap ?w ! a) \<noteq> p
                      \<longrightarrow> applyProxy lib p = None)"
    using a(1) len r keep ent res e2 iff by simp
  then show ?thesis by blast
qed

lemma sample_first_call_s1:
  "fst (GetTlsClientFromInput sample_library ''uuid-1'' (sample_input (Some ''s1'') None True)
          empty_world)
     = Returned (Some 0, ''s1'', None)"
  using sample_first_call[of "''uuid-1''" "Some ''s1''"]
  by (simp add: newSessionId_def sample_input_def)

lemma sample_first_call_full:
  "GetTlsClientFromInput sample_library ''uuid-1'' (sample_input (Some ''s1'') None True)
     empty_world
   = (Returned (Some 0, ''s1'', None),
      snd (GetTlsClientFromInput sample_library ''uuid-1'' (sample_input (Some ''s1'') None True)
             empty_world))"
  using sample_first_call_s1 by (metis prod.collapse)

theorem GetTlsClientFromInput_reuses_client_witness:
  "fst (GetTlsClientFromInput sample_library ''uuid-2''
          (sample_input (Some ''s1'') (Some ''http://p2:8080'') False)
          (snd (GetTlsClientFromInput sample_library ''uuid-1''
                  (sample_input (Some ''s1'') None True) empty_world)))
     = Returned (Some 0, ''s1'', None)"
proof -
  let ?inp2 = "sample_input (Some ''s1'') (Some ''http://p2:8080'') False"
  let ?w1 = "snd (GetTlsClientFromInput sample_library ''uuid-1''
                    (sample_input (Some ''s1'') None True) empty_world)"
  have h2: "SessionId ?inp2 = Some ''s1''" and h3: "''s1'' \<noteq> []"
    and h4: "(TLSClientIdentifier ?inp2 \<noteq> []) \<noteq> (CustomTlsClient ?inp2 \<noteq> None)"
    by (simp_all add: sample_input_def)
  note reuse = GetTlsClientFromInput_reuses_client
         [OF sample_first_call_full h2 h3 h4, of "[]" "''uuid-2''", unfolded calls.simps]
  from reuse obtain a c2 e2 w2 where
    r: "GetTlsClientFromInput sample_library ''uuid-2'' ?inp2 ?w1 = (Returned (c2, ''s1'', e2), w2)"
    and c: "e2 = None \<longrightarrow> c2 = Some 0"
    and iff: "(e2 = None)
               = (\<forall>p. ProxyUrl ?inp2 = Some p \<and> GetProxy (heap ?w1 ! a) \<noteq> p
                      \<longrightarrow> applyProxy sample_library p = None)"
    by blast
  have "\<forall>p. ProxyUrl ?inp2 = Some p \<and> GetProxy (heap ?w1 ! a) \<noteq> p
                      \<longrightarrow> applyProxy sample_library p = None"
    by (simp add: sample_input_def sample_library_def)
  with iff have "e2 = None" by simp
  with c have "c2 = Some 0" by simp
  with r \<open>e2 = None\<close> show ?thesis by simp
qed

text \<open>
  Claim C3 as stated fails. Both calls carry the session id \<open>s1\<close> and the same identifier,
  and no custom definition. The first builds the client and returns it; the second
  supplies a proxy that \<open>SetProxy\<close> rejects and gets the nil client with an error, not the
  client of the first call.
\<close>

theorem GetTlsClientFromInput_second_call_rejected_proxy_returns_nil:
  "fst (GetTlsClientFromInput sample_library ''uuid-1'' (sample_input (Some ''s1'') None True)
          empty_world)
     = Returned (Some 0, ''s1'', None)
   \<and> fst (GetTlsClientFromInput sample_library ''uuid-2''
            (sample_input (Some ''s1'') (Some ''::bad'') True)
            (snd (GetTlsClientFromInput sample_library ''uuid-1''
                    (sample_input (Some ''s1'') None True) empty_world)))
       = Returned (None, ''s1'', Some (NewTLSClientError
           ''failed to build client out of request input: failed to modify existing client: failed to change proxy url of client: invalid proxy url''))"
proof -
  let ?inp1 = "sample_input (Some ''s1'') None True"
  let ?inp2 = "sample_input (Some ''s1'') (Some ''::bad'') True"
  let ?w1 = "snd (GetTlsClientFromInput sample_library ''uuid-1'' ?inp1 empty_world)"
  have g1: "getTlsClient sample_library ?inp1 ''s1'' empty_world = (Returned (Some 0, None), ?w1)"
    using GetTlsClientFromInput_returned[OF sample_first_call_full]
    by (simp add: sample_input_def newSessionId_def)
  have w1: "?w1 = \<lparr>clients = [''s1'' \<mapsto> Some 0],
                   heap = [sample_client\<lparr>obj_proxy := [], obj_timeout := 30,
                                         obj_profile := ClientProfile_zero\<rparr>]\<rparr>"
    using g1
    by (simp add: getTlsClient_def clientProfile_def getTlsClientProfile_def options_def
        sample_library_def sample_input_def empty_world_def)
  have ent: "clients ?w1 ''s1'' = Some (Some 0)" and len: "0 < length (heap ?w1)"
    and px: "GetProxy (heap ?w1 ! 0) \<noteq> ''::bad''"
    unfolding w1 by (simp_all add: GetProxy_def)
  have "ProxyUrl ?inp2 = Some ''::bad''"
    and "applyProxy sample_library ''::bad'' = Some ''invalid proxy url''"
    by (simp_all add: sample_input_def sample_library_def)
  from getTlsClient_existing_rejected[OF ent len this(1) px this(2)]
  have "fst (getTlsClient sample_library ?inp2 ''s1'' ?w1)
          = Returned (None, Some (''failed to modify existing client: ''
                @ ''failed to change proxy url of client: '' @ ''invalid proxy url''))"
    by (simp only: fst_conv)
  moreover have v: "(TLSClientIdentifier ?inp2 \<noteq> []) \<noteq> (CustomTlsClient ?inp2 \<noteq> None)"
    by (simp add: sample_input_def)
  moreover have "newSessionId ''uuid-2'' ?inp2 = ''s1''"
    by (simp add: sample_input_def newSessionId_def)
  ultimately have "fst (GetTlsClientFromInput sample_library ''uuid-2'' ?inp2 ?w1)
      = Returned (None, ''s1'', Some (NewTLSClientError
           ''failed to build client out of request input: failed to modify existing client: failed to change proxy url of client: invalid proxy url''))"
    by (cases "getTlsClient sample_library ?inp2 ''s1'' ?w1")
       (simp add: GetTlsClientFromInput_valid[OF v])
  with sample_first_call_s1 show ?thesis by (rule conjI)
qed

end
